theory Spec2Isabelle
  imports Main
begin

section \<open>Certificate and certificate-authority management (plugins/crypto.py)\<close>

text \<open>
  A shallow embedding of the certificate plugin: the two datastore tables
  (\<open>system.certificate\<close> and \<open>system.certificateauthority\<close>), the extension hook
  \<open>cert_extend\<close>, name validation, the create, update and delete operations, the ACME
  issuance and renewal sweep, and the serial allocator.

  The OpenSSL and ACME libraries, the country validator and the clock are parameters of
  the model (records of functions); the datastore is a pair of lists of rows held in an
  explicit state, and every other effect (service start, ACME requests, progress reports)
  is an event appended to the state's log.  Python strings are modelled as \<open>string\<close>.
\<close>

subsection \<open>Constants\<close>

definition CA_TYPE_EXISTING :: int where "CA_TYPE_EXISTING = 1"
definition CA_TYPE_INTERNAL :: int where "CA_TYPE_INTERNAL = 2"
definition CA_TYPE_INTERMEDIATE :: int where "CA_TYPE_INTERMEDIATE = 4"
definition CERT_TYPE_EXISTING :: int where "CERT_TYPE_EXISTING = 8"
definition CERT_TYPE_INTERNAL :: int where "CERT_TYPE_INTERNAL = 16"
definition CERT_TYPE_CSR :: int where "CERT_TYPE_CSR = 32"

definition CERT_ROOT_PATH :: string where "CERT_ROOT_PATH = ''/etc/certificates''"
definition CERT_CA_ROOT_PATH :: string where "CERT_CA_ROOT_PATH = ''/etc/certificates/CA''"

subsection \<open>Errors\<close>

text \<open>
  \<open>ValidationErrors\<close> carries the list of (field, message) pairs added with
  \<open>verrors.add\<close>; the object is truthy exactly when the list is not empty.  The other
  constructors are the exceptions the modelled code can raise.
\<close>

type_synonym verrors = "(string \<times> string) list"

datatype error =
    ValidationErrors verrors
  | CallError string
  | MatchNotFound
  | InstanceNotFound int
  | TypeError
  | UnboundLocalError
  | CryptoError
  | KeyError string
  | AttributeError

subsection \<open>Rows of the two tables\<close>

text \<open>
  One row of \<open>system.certificate\<close> or \<open>system.certificateauthority\<close> (both tables have
  the same columns, prefix \<open>cert_\<close>).  Foreign keys (\<open>signedby\<close>, \<open>acme\<close>) hold the id of
  the row they point to; \<open>None\<close> is the database NULL.
\<close>

record registration =
  reg_id :: int
  reg_directory :: string

record row =
  cert_id :: int
  cert_type :: int
  cert_name :: string
  cert_certificate :: "string option"
  cert_privatekey :: "string option"
  cert_CSR :: "string option"
  cert_serial :: "int option"
  cert_signedby :: "int option"
  cert_chain :: bool
  cert_common :: "string option"
  cert_san :: "string option"
  cert_acme :: "registration option"
  cert_acme_uri :: "string option"
  cert_domains_authenticators :: "(string \<times> int) list"
  cert_renew_days :: "int option"

subsection \<open>The crypto library\<close>

text \<open>
  The OpenSSL calls of \<open>cert_extend\<close>, each as a function of the PEM text it is given.
  \<open>recode_certificate c\<close> is \<open>dump_certificate(load_certificate(c))\<close>, and \<open>None\<close> when
  \<open>load_certificate\<close> raises; likewise for private keys and requests.
  \<open>findall\<close> is \<open>RE_CERTIFICATE.findall\<close>.
\<close>

record crypto_lib =
  findall :: "string \<Rightarrow> string list"
  recode_certificate :: "string \<Rightarrow> string option"
  recode_privatekey :: "string \<Rightarrow> string option"
  recode_request :: "string \<Rightarrow> string option"
  validity :: "string \<Rightarrow> string \<times> string"
  certificate_DN :: "string \<Rightarrow> string"
  request_DN :: "string \<Rightarrow> string"

subsection \<open>The extended view\<close>

text \<open>
  The dictionary \<open>cert_extend\<close> returns.  \<open>v_signedby\<close> is the extended signing CA
  (the nested dictionary under the key \<open>signedby\<close>).  The key \<open>issuer\<close> is
  \<open>cert_issuer(cert)\<close>, a function of the keys \<open>type\<close> and \<open>signedby\<close>, which are not
  assigned again after it is computed; the model computes it with \<open>cert_issuer\<close>.
\<close>

datatype view = View
  (v_row: row)
  (v_signedby: "view option")
  (v_san: "string list")
  (v_root_path: string)
  (v_certificate_path: string)
  (v_privatekey_path: string)
  (v_csr_path: string)
  (v_chain_list: "string list")
  (v_privatekey: "string option")
  (v_CSR: "string option")
  (v_internal: string)
  (v_from: "string option")
  (v_until: "string option")
  (v_DN: "string option")

datatype issuer = Tag string | Signer view | NoIssuer

definition issuer_of :: "int \<Rightarrow> view option \<Rightarrow> issuer" where
  "issuer_of ty signedby =
     (if ty = CA_TYPE_EXISTING \<or> ty = CERT_TYPE_EXISTING then Tag ''external''
      else if ty = CA_TYPE_INTERNAL then Tag ''self-signed''
      else if ty = CERT_TYPE_INTERNAL \<or> ty = CA_TYPE_INTERMEDIATE then
        (case signedby of None \<Rightarrow> NoIssuer | Some p \<Rightarrow> Signer p)
      else if ty = CERT_TYPE_CSR then Tag ''external - signature pending''
      else NoIssuer)"

definition cert_issuer :: "view \<Rightarrow> issuer" where
  "cert_issuer v = issuer_of (cert_type (v_row v)) (v_signedby v)"

text \<open>
  The \<open>while\<close> loop of \<open>cert_extend\<close>: starting from the issuer of the record, append the
  certificate of each signing CA until the issuer is a tag or \<open>None\<close>.  The recursion
  follows the nesting of the extended signing CA.
\<close>

fun signing_chain :: "int \<Rightarrow> view option \<Rightarrow> string option list" where
  "signing_chain ty None = []"
| "signing_chain ty (Some (View r sb sn rp cp pp sp cl pk cs it fr un dn)) =
     (if ty = CA_TYPE_EXISTING \<or> ty = CERT_TYPE_EXISTING then []
      else if ty = CA_TYPE_INTERNAL then []
      else if ty = CERT_TYPE_INTERNAL \<or> ty = CA_TYPE_INTERMEDIATE then
        cert_certificate r # signing_chain (cert_type r) sb
      else [])"

text \<open>
  The loop that decodes the blobs.  The \<open>try\<close> encloses the whole \<open>for\<close>: the first
  blob that fails to load leaves the loop, with what was appended so far.  The second
  component is \<open>cert_obj\<close>, the last blob that loaded.
\<close>

fun load_certs :: "crypto_lib \<Rightarrow> string option list \<Rightarrow> string list \<Rightarrow> string option
    \<Rightarrow> string list \<times> string option" where
  "load_certs lib [] acc obj = (acc, obj)"
| "load_certs lib (None # cs) acc obj = load_certs lib cs acc obj"
| "load_certs lib (Some c # cs) acc obj =
     (if c = [] then load_certs lib cs acc obj
      else (case recode_certificate lib c of
              None \<Rightarrow> (acc, obj)
            | Some pem \<Rightarrow> load_certs lib cs (acc @ [pem]) (Some c)))"

definition is_whitespace :: "char \<Rightarrow> bool" where
  "is_whitespace c = (of_char c \<in> {9, 10, 11, 12, 13, 28, 29, 30, 31, 32, 133, 160 :: nat})"

fun split_ws :: "string \<Rightarrow> string \<Rightarrow> string list" where
  "split_ws [] cur = (if cur = [] then [] else [cur])"
| "split_ws (c # cs) cur =
     (if is_whitespace c then (if cur = [] then split_ws cs [] else cur # split_ws cs [])
      else split_ws cs (cur @ [c]))"

definition path_join :: "string \<Rightarrow> string \<Rightarrow> string" where
  "path_join a b = (if b \<noteq> [] \<and> hd b = CHR ''/'' then b else a @ ''/'' @ b)"

definition truthy :: "string option \<Rightarrow> bool" where
  "truthy s = (case s of None \<Rightarrow> False | Some x \<Rightarrow> x \<noteq> [])"

definition is_ca_type :: "int \<Rightarrow> bool" where
  "is_ca_type ty = (ty = CA_TYPE_EXISTING \<or> ty = CA_TYPE_INTERNAL \<or> ty = CA_TYPE_INTERMEDIATE)"

definition strip_acme :: "row \<Rightarrow> row" where
  "strip_acme cert =
     (if cert_acme cert = None
      then cert\<lparr>cert_acme_uri := None, cert_domains_authenticators := [], cert_renew_days := None\<rparr>
      else cert)"

text \<open>
  The blobs to decode: the matches of \<open>RE_CERTIFICATE\<close> when \<open>chain\<close> is set (a
  \<open>TypeError\<close> when there is no certificate text to search), otherwise the record's own
  certificate followed by the signing chain.
\<close>

definition chain_blobs :: "crypto_lib \<Rightarrow> row \<Rightarrow> view option \<Rightarrow> error + string option list" where
  "chain_blobs lib cert signedby =
     (if cert_chain cert then
        (case cert_certificate cert of
           None \<Rightarrow> Inl TypeError
         | Some c \<Rightarrow> Inr (map Some (findall lib c)))
      else Inr (cert_certificate cert # signing_chain (cert_type cert) signedby))"

text \<open>
  The view assembled from a record: the keys \<open>cert_extend\<close> computes from the record
  alone (\<open>san\<close> as a list, the paths, the normalised private key and request, the
  \<open>internal\<close> flag), with the chain list, validity window and subject it is given.
\<close>

definition root_path_of :: "row \<Rightarrow> string" where
  "root_path_of cert =
     (if is_ca_type (cert_type cert) then CERT_CA_ROOT_PATH else CERT_ROOT_PATH)"

definition privatekey_of :: "crypto_lib \<Rightarrow> row \<Rightarrow> string option" where
  "privatekey_of lib cert =
     (if truthy (cert_privatekey cert) then
        (case recode_privatekey lib (the (cert_privatekey cert)) of
           None \<Rightarrow> cert_privatekey cert
         | Some k \<Rightarrow> Some k)
      else cert_privatekey cert)"

text \<open>\<open>csr_obj\<close>: bound only when the record has a request and it loads.\<close>

definition csr_obj_of :: "crypto_lib \<Rightarrow> row \<Rightarrow> string option" where
  "csr_obj_of lib cert =
     (if truthy (cert_CSR cert) then recode_request lib (the (cert_CSR cert)) else None)"

definition mk_view :: "crypto_lib \<Rightarrow> row \<Rightarrow> view option \<Rightarrow> string list
    \<Rightarrow> string option \<Rightarrow> string option \<Rightarrow> string option \<Rightarrow> view" where
  "mk_view lib cert signedby chain_list frm until dn =
     View cert signedby
       (split_ws (case cert_san cert of None \<Rightarrow> [] | Some s \<Rightarrow> s) [])
       (root_path_of cert)
       (path_join (root_path_of cert) (cert_name cert @ ''.crt''))
       (path_join (root_path_of cert) (cert_name cert @ ''.key''))
       (path_join (root_path_of cert) (cert_name cert @ ''.csr''))
       chain_list
       (privatekey_of lib cert)
       (case csr_obj_of lib cert of None \<Rightarrow> cert_CSR cert | Some r \<Rightarrow> Some r)
       (if cert_type cert = CA_TYPE_EXISTING \<or> cert_type cert = CERT_TYPE_EXISTING
        then ''NO'' else ''YES'')
       frm until dn"

text \<open>
  The end of \<open>cert_extend\<close>, from \<open>obj = None\<close> on: a record of type CSR takes
  \<open>csr_obj\<close>, which is unbound when no request was loaded; otherwise, when some blob
  loaded (\<open>cert_obj\<close>), the record's own certificate is loaded again, outside any
  \<open>try\<close>, for the validity window and the subject.
\<close>

definition extend_dates :: "crypto_lib \<Rightarrow> row \<Rightarrow> view option \<Rightarrow> string list \<Rightarrow> string option
    \<Rightarrow> error + view" where
  "extend_dates lib cert signedby chain_list cert_obj =
     (if cert_type cert = CERT_TYPE_CSR then
        (case csr_obj_of lib cert of
           None \<Rightarrow> Inl UnboundLocalError
         | Some r \<Rightarrow>
            Inr (mk_view lib cert signedby chain_list None None
                   (Some (request_DN lib (the (cert_CSR cert))))))
      else if cert_obj \<noteq> None then
        (case cert_certificate cert of
           None \<Rightarrow> Inl TypeError
         | Some c \<Rightarrow>
            (case recode_certificate lib c of
               None \<Rightarrow> Inl CryptoError
             | Some pem \<Rightarrow>
                Inr (mk_view lib cert signedby chain_list
                       (Some (fst (validity lib c))) (Some (snd (validity lib c)))
                       (Some (certificate_DN lib c)))))
      else Inr (mk_view lib cert signedby chain_list None None None))"

text \<open>Everything \<open>cert_extend\<close> does once the signing CA has been fetched.\<close>

definition extend_fields :: "crypto_lib \<Rightarrow> row \<Rightarrow> view option \<Rightarrow> error + view" where
  "extend_fields lib cert0 signedby =
     (case chain_blobs lib (strip_acme cert0) signedby of
        Inl e \<Rightarrow> Inl e
      | Inr certs \<Rightarrow>
         extend_dates lib (strip_acme cert0) signedby
           (fst (load_certs lib certs [] None)) (snd (load_certs lib certs [] None)))"

text \<open>
  \<open>cert_extend\<close>: when the row has a signing CA, the CA is queried from
  \<open>system.certificateauthority\<close> with \<open>get\<close> set (no match raises) and with this same
  function as extension hook, so the signing CA is extended first, and its own signing CA
  before it.  The recursion ends when the references do; the first argument bounds its
  depth, and \<open>None\<close> means the bound was reached.
\<close>

fun cert_extend :: "nat \<Rightarrow> crypto_lib \<Rightarrow> row list \<Rightarrow> row \<Rightarrow> (error + view) option" where
  "cert_extend 0 lib cas cert = None"
| "cert_extend (Suc n) lib cas cert =
     (case cert_signedby cert of
        None \<Rightarrow> Some (extend_fields lib cert None)
      | Some pid \<Rightarrow>
         (case find (\<lambda>c. cert_id c = pid) cas of
            None \<Rightarrow> Some (Inl MatchNotFound)
          | Some parent \<Rightarrow>
             (case cert_extend n lib cas parent of
                None \<Rightarrow> None
              | Some (Inl e) \<Rightarrow> Some (Inl e)
              | Some (Inr p) \<Rightarrow> Some (extend_fields lib cert (Some p)))))"

subsection \<open>The state\<close>

text \<open>
  The tables (\<open>system.certificate\<close>, \<open>system.certificateauthority\<close>, the ACME
  registrations and the ids of the DNS authenticators), the certificate the system UI
  serves, the alert sentinel files that exist, and the log of effects.  A progress report
  is logged with its message only (the percentage is a float).
\<close>

datatype create_type =
    CERTIFICATE_CREATE_INTERNAL
  | CERTIFICATE_CREATE_IMPORTED
  | CERTIFICATE_CREATE_IMPORTED_CSR
  | CERTIFICATE_CREATE_CSR
  | CERTIFICATE_CREATE_ACME
  | CERTIFICATE_CREATE

datatype ca_create_type = CA_CREATE_INTERNAL | CA_CREATE_IMPORTED | CA_CREATE_INTERMEDIATE

datatype event =
    ServiceStart string
  | SetProgress string
  | LogDebug string
  | VariantCall create_type
  | CAVariantCall ca_create_type
  | RegistrationQuery string
  | RegistrationCreate string
  | NewOrder
  | UpdateTxtRecord int string
  | AnswerChallenge string
  | PollAndFinalize
  | Revoke string
  | ProcessAlerts

record world =
  certificates :: "row list"
  authorities :: "row list"
  registrations :: "registration list"
  authenticators :: "int list"
  ui_certificate :: "int option"
  sentinels :: "string list"
  events :: "event list"

definition log_event :: "event \<Rightarrow> world \<Rightarrow> world" where
  "log_event e w = w\<lparr>events := events w @ [e]\<rparr>"

text \<open>
  \<open>_get_instance(id)\<close>: the row with this id, extended; an error when there is none.
  The first table is the service's own, the second the CA table \<open>cert_extend\<close> reads.
\<close>

definition get_instance :: "nat \<Rightarrow> crypto_lib \<Rightarrow> row list \<Rightarrow> row list \<Rightarrow> int
    \<Rightarrow> (error + view) option" where
  "get_instance n lib table cas i =
     (case find (\<lambda>c. cert_id c = i) table of
        None \<Rightarrow> Some (Inl (InstanceNotFound i))
      | Some r \<Rightarrow> cert_extend n lib cas r)"

subsection \<open>Name validation\<close>

definition in_range :: "char \<Rightarrow> char \<Rightarrow> char \<Rightarrow> bool" where
  "in_range lo hi c = ((of_char lo :: nat) \<le> of_char c \<and> (of_char c :: nat) \<le> of_char hi)"

definition name_char :: "char \<Rightarrow> bool" where
  "name_char c =
     (in_range CHR ''a'' CHR ''z'' c \<or> in_range CHR ''A'' CHR ''Z'' c \<or>
      in_range CHR ''0'' CHR ''9'' c \<or> c = CHR ''_'' \<or> c = CHR ''-'')"

text \<open>
  \<open>re.search(r'^[a-z0-9_\-]+$', cert_name, re.I)\<close>: a non-empty run of name characters
  from the start, up to the end of the string or to a newline that ends the string
  (\<open>$\<close> without \<open>re.M\<close> also matches before a final newline).
\<close>

definition name_matches :: "string \<Rightarrow> bool" where
  "name_matches s =
     (takeWhile name_char s \<noteq> [] \<and>
      (dropWhile name_char s = [] \<or> dropWhile name_char s = [CHR 0x0A]))"

definition reserved_keywords :: "string list" where
  "reserved_keywords = [''external'', ''self-signed'', ''external - signature pending'']"

definition validate_cert_name :: "row list \<Rightarrow> string \<Rightarrow> verrors \<Rightarrow> string \<Rightarrow> verrors" where
  \<open>validate_cert_name datastore nm verrors name =
     (let v1 = (if filter (\<lambda>c. cert_name c = nm) datastore \<noteq> []
                then verrors @ [(name, ''A certificate with this name already exists'')]
                else verrors);
          v2 = (if nm \<in> set reserved_keywords
                then v1 @ [(name, nm @ '' is a reserved internal keyword for Certificate Management'')]
                else v1)
      in if \<not> name_matches nm
         then v2 @ [(name, ''Use alphanumeric characters, "_" and "-".'')]
         else v2)\<close>

subsection \<open>Certificate deletion\<close>

text \<open>
  The ACME library: each call as a function that returns what the server answers.
  \<open>registration_create\<close> is \<open>acme.registration.create\<close>; \<open>new_order\<close> returns the
  order or the text of the \<open>messages.Error\<close>; \<open>update_txt_record\<close> is the DNS
  authenticator; \<open>answer_challenge\<close> returns the status or the text of the
  \<open>UnexpectedUpdate\<close>; \<open>poll_and_finalize\<close> returns the final order, \<open>None\<close> for a
  timeout; \<open>revoke\<close> returns the text of the error when the server refuses.
\<close>

record authorization =
  auth_domain :: string
  auth_dns01 :: bool

record final_order =
  fullchain_pem :: string
  order_uri :: string

record acme_lib =
  registration_create :: "string \<Rightarrow> bool \<Rightarrow> error + registration"
  new_order :: "string option \<Rightarrow> string + authorization list"
  update_txt_record :: "int \<Rightarrow> string \<Rightarrow> error option"
  answer_challenge :: "string \<Rightarrow> string + bool"
  poll_and_finalize :: "authorization list \<Rightarrow> final_order option"
  revoke :: "string \<Rightarrow> string option"

text \<open>
  \<open>get_acme_client_and_key\<close>: the registration for the directory is looked up, and
  created when there is none.
\<close>

definition get_acme_client_and_key :: "acme_lib \<Rightarrow> world \<Rightarrow> string \<Rightarrow> bool
    \<Rightarrow> (error + registration) \<times> world" where
  "get_acme_client_and_key acme w uri tos =
     (let w1 = log_event (RegistrationQuery uri) w in
      case find (\<lambda>r. reg_directory r = uri) (registrations w1) of
        Some r \<Rightarrow> (Inr r, w1)
      | None \<Rightarrow>
         (let w2 = log_event (RegistrationCreate uri) w1 in
          case registration_create acme uri tos of
            Inl e \<Rightarrow> (Inl e, w2)
          | Inr r \<Rightarrow> (Inr r, w2\<lparr>registrations := registrations w2 @ [r]\<rparr>)))"

text \<open>The end of \<open>do_delete\<close>: the row is deleted, the service started, the sentinel removed.\<close>

definition delete_row :: "world \<Rightarrow> int \<Rightarrow> string \<Rightarrow> (error + bool) \<times> world" where
  "delete_row w i nm =
     (let w1 = w\<lparr>certificates := filter (\<lambda>c. cert_id c \<noteq> i) (certificates w)\<rparr>;
          w2 = log_event (ServiceStart ''ssl'') w1;
          sentinel = ''/tmp/alert_invalidcert_'' @ nm;
          w3 = (if sentinel \<in> set (sentinels w2)
                then log_event ProcessAlerts
                       (w2\<lparr>sentinels := filter (\<lambda>f. f \<noteq> sentinel) (sentinels w2)\<rparr>)
                else w2)
      in (Inr True, log_event (SetProgress []) w3))"

definition do_delete :: "nat \<Rightarrow> crypto_lib \<Rightarrow> acme_lib \<Rightarrow> world \<Rightarrow> int \<Rightarrow> bool
    \<Rightarrow> ((error + bool) \<times> world) option" where
  "do_delete n lib acme w i force =
     (case ui_certificate w of
        None \<Rightarrow> Some (Inl TypeError, w)
      | Some ui \<Rightarrow>
         if ui = i then
           Some (Inl (ValidationErrors [(''certificate_delete.id'',
             ''Selected certificate is being used by system HTTPS server, please select another one'')]), w)
         else
           (case get_instance n lib (certificates w) (authorities w) i of
              None \<Rightarrow> None
            | Some (Inl e) \<Rightarrow> Some (Inl e, w)
            | Some (Inr certificate) \<Rightarrow>
               (case cert_acme (v_row certificate) of
                  None \<Rightarrow> Some (delete_row w i (cert_name (v_row certificate)))
                | Some reg \<Rightarrow>
                   (case get_acme_client_and_key acme w (reg_directory reg) True of
                      (Inl e, w1) \<Rightarrow> Some (Inl e, w1)
                    | (Inr client, w1) \<Rightarrow>
                       (case cert_certificate (v_row certificate) of
                          None \<Rightarrow> Some (Inl TypeError, w1)
                        | Some c \<Rightarrow>
                           if recode_certificate lib c = None then Some (Inl CryptoError, w1)
                           else
                             (let w2 = log_event (Revoke c) w1 in
                              case revoke acme c of
                                None \<Rightarrow> Some (delete_row w2 i (cert_name (v_row certificate)))
                              | Some e \<Rightarrow>
                                 if \<not> force
                                 then Some (Inl (CallError (''Failed to revoke certificate: '' @ e)), w2)
                                 else Some (delete_row w2 i (cert_name (v_row certificate)))))))))"

subsection \<open>Notions used to state the properties\<close>

definition present_blobs :: "string option list \<Rightarrow> string list" where
  "present_blobs cs = concat (map (\<lambda>c. case c of None \<Rightarrow> [] | Some s \<Rightarrow> (if s = [] then [] else [s])) cs)"

definition decodes :: "crypto_lib \<Rightarrow> string \<Rightarrow> bool" where
  "decodes lib c = (recode_certificate lib c \<noteq> None)"

definition decoded_prefix :: "crypto_lib \<Rightarrow> string option list \<Rightarrow> string list" where
  "decoded_prefix lib cs = map (\<lambda>c. the (recode_certificate lib c)) (takeWhile (decodes lib) (present_blobs cs))"

definition signed_by :: "row list \<Rightarrow> row \<Rightarrow> row \<Rightarrow> bool" where
  "signed_by cas c p =
     (case cert_signedby c of None \<Rightarrow> False
      | Some pid \<Rightarrow> find (\<lambda>x. cert_id x = pid) cas = Some p)"

fun ca_path :: "row list \<Rightarrow> row \<Rightarrow> row list \<Rightarrow> bool" where
  "ca_path cas c [] = False"
| "ca_path cas c [p] =
     (signed_by cas c p \<and> cert_type p = CA_TYPE_INTERNAL \<and> cert_signedby p = None)"
| "ca_path cas c (p # q # ps) =
     (signed_by cas c p \<and> cert_type p = CA_TYPE_INTERMEDIATE \<and> ca_path cas p (q # ps))"

definition loadable :: "crypto_lib \<Rightarrow> row \<Rightarrow> bool" where
  "loadable lib r =
     (case cert_certificate r of None \<Rightarrow> False
      | Some c \<Rightarrow> c \<noteq> [] \<and> recode_certificate lib c \<noteq> None)"

definition pem_of :: "crypto_lib \<Rightarrow> row \<Rightarrow> string" where
  "pem_of lib r = the (recode_certificate lib (the (cert_certificate r)))"

fun view_ancestors :: "view \<Rightarrow> view list" where
  "view_ancestors (View r sb sn rp cp pp sp cl pk cs it fr un dn) =
     (case sb of None \<Rightarrow> [] | Some p \<Rightarrow> p # view_ancestors p)"

definition example_lib :: crypto_lib where
  "example_lib =
     \<lparr>findall = (\<lambda>s. split_ws s []),
      recode_certificate = (\<lambda>s. if take 3 s = ''bad'' then None else Some s),
      recode_privatekey = (\<lambda>s. Some s),
      recode_request = (\<lambda>s. Some s),
      validity = (\<lambda>s. (''Jan  1 00:00:00 2019'', ''Jan  1 00:00:00 2029'')),
      certificate_DN = (\<lambda>s. ''/CN='' @ s),
      request_DN = (\<lambda>s. ''/CN='' @ s)\<rparr>"

definition row_of :: "int \<Rightarrow> int \<Rightarrow> string \<Rightarrow> string option \<Rightarrow> int option \<Rightarrow> int option \<Rightarrow> bool \<Rightarrow> row" where
  "row_of i ty nm crt ser sb ch =
     \<lparr>cert_id = i, cert_type = ty, cert_name = nm, cert_certificate = crt,
      cert_privatekey = None, cert_CSR = None, cert_serial = ser, cert_signedby = sb,
      cert_chain = ch, cert_common = None, cert_san = None, cert_acme = None,
      cert_acme_uri = None, cert_domains_authenticators = [], cert_renew_days = None\<rparr>"

definition chain_sources :: "crypto_lib \<Rightarrow> view \<Rightarrow> error + string option list" where
  "chain_sources lib v = chain_blobs lib (v_row v) (v_signedby v)"

definition example_root :: row where
  "example_root = row_of 1 CA_TYPE_INTERNAL ''root'' (Some ''rootpem'') (Some 1) None False"

definition example_inter :: row where
  "example_inter = row_of 2 CA_TYPE_INTERMEDIATE ''inter'' (Some ''interpem'') (Some 3) (Some 1) False"

definition corrupt_inter :: row where
  "corrupt_inter = row_of 2 CA_TYPE_INTERMEDIATE ''inter'' (Some ''bad-inter'') (Some 3) (Some 1) False"

definition example_leaf :: row where
  "example_leaf = row_of 1 CERT_TYPE_INTERNAL ''leaf'' (Some ''leafpem'') (Some 4) (Some 2) False"

definition imported_leaf :: row where
  "imported_leaf = row_of 1 CERT_TYPE_EXISTING ''leaf'' (Some ''leafpem'') (Some 2) (Some 1) False"

definition example_bundle :: row where
  "example_bundle = row_of 3 CERT_TYPE_EXISTING ''bundle'' (Some ''pem1 pem2'') None (Some 1) True"

fun join_sp :: "string list \<Rightarrow> string" where
  "join_sp [] = []"
| "join_sp [x] = x"
| "join_sp (x # y # ys) = x @ '' '' @ join_sp (y # ys)"

definition updated_row :: "row \<Rightarrow> view \<Rightarrow> string \<Rightarrow> row" where
  "updated_row r old nm =
     r\<lparr>cert_name := nm, cert_san := Some (join_sp (v_san old)),
       cert_privatekey := v_privatekey old, cert_CSR := v_CSR old\<rparr>"

definition datastore_update :: "row list \<Rightarrow> int \<Rightarrow> view \<Rightarrow> string \<Rightarrow> row list" where
  "datastore_update table i old nm =
     map (\<lambda>c. if cert_id c = i then updated_row c old nm else c) table"

definition do_update :: "nat \<Rightarrow> crypto_lib \<Rightarrow> world \<Rightarrow> int \<Rightarrow> string option
    \<Rightarrow> ((error + view) \<times> world) option" where
  "do_update n lib w i data_name =
     (case get_instance n lib (certificates w) (authorities w) i of
        None \<Rightarrow> None
      | Some (Inl e) \<Rightarrow> Some (Inl e, w)
      | Some (Inr old) \<Rightarrow>
         (let new_name = (case data_name of None \<Rightarrow> cert_name (v_row old) | Some nm \<Rightarrow> nm) in
          if new_name \<noteq> cert_name (v_row old) then
            (let verrors = validate_cert_name (certificates w) new_name [] ''certificate_update.name'' in
             if verrors \<noteq> [] then Some (Inl (ValidationErrors verrors), w)
             else
               (let w1 = w\<lparr>certificates := datastore_update (certificates w) i old new_name\<rparr>;
                    w2 = log_event (ServiceStart ''ssl'') w1;
                    w3 = log_event (SetProgress ''Finalizing changes'') w2
                in case get_instance n lib (certificates w3) (authorities w3) i of
                     None \<Rightarrow> None
                   | Some r \<Rightarrow> Some (r, w3)))
          else
            (let w3 = log_event (SetProgress ''Finalizing changes'') w
             in case get_instance n lib (certificates w3) (authorities w3) i of
                  None \<Rightarrow> None
                | Some r \<Rightarrow> Some (r, w3))))"

definition ca_do_update :: "nat \<Rightarrow> crypto_lib \<Rightarrow> (world \<Rightarrow> int \<Rightarrow> ((error + view) \<times> world) option)
    \<Rightarrow> world \<Rightarrow> int \<Rightarrow> string option \<Rightarrow> string option \<Rightarrow> ((error + view) \<times> world) option" where
  "ca_do_update n lib ca_sign_csr w i create_type data_name =
     (if create_type = Some ''CA_SIGN_CSR'' then ca_sign_csr w i
      else
        (case get_instance n lib (authorities w) (authorities w) i of
           None \<Rightarrow> None
         | Some (Inl e) \<Rightarrow> Some (Inl e, w)
         | Some (Inr old) \<Rightarrow>
            (let new_name = (case data_name of None \<Rightarrow> cert_name (v_row old) | Some nm \<Rightarrow> nm) in
             if new_name \<noteq> cert_name (v_row old) then
               (let verrors = validate_cert_name (authorities w) new_name []
                                ''certificate_authority_update.name'' in
                if verrors \<noteq> [] then Some (Inl (ValidationErrors verrors), w)
                else
                  (let w1 = w\<lparr>authorities := datastore_update (authorities w) i old new_name\<rparr>;
                       w2 = log_event (ServiceStart ''ssl'') w1
                   in case get_instance n lib (authorities w2) (authorities w2) i of
                        None \<Rightarrow> None
                      | Some r \<Rightarrow> Some (r, w2)))
             else
               (case get_instance n lib (authorities w) (authorities w) i of
                  None \<Rightarrow> None
                | Some r \<Rightarrow> Some (r, w)))))"

definition example_acme :: acme_lib where
  "example_acme =
     \<lparr>registration_create = (\<lambda>uri tos. Inr \<lparr>reg_id = 1, reg_directory = uri\<rparr>),
      new_order = (\<lambda>csr. if csr = None then Inl ''badCSR'' else Inr [\<lparr>auth_domain = ''a.example.com'', auth_dns01 = True\<rparr>]),
      update_txt_record = (\<lambda>a d. None),
      answer_challenge = (\<lambda>d. Inr True),
      poll_and_finalize = (\<lambda>order. Some \<lparr>fullchain_pem = ''pem1 pem2'', order_uri = ''https://acme.example/order/1''\<rparr>),
      revoke = (\<lambda>c. None)\<rparr>"

definition example_world :: world where
  "example_world =
     \<lparr>certificates = [example_leaf], authorities = [example_root, example_inter],
      registrations = [], authenticators = [7], ui_certificate = Some 1, sentinels = [],
      events = []\<rparr>"

subsection \<open>Common attribute validation\<close>















subsection \<open>Creation\<close>






definition name_rejected :: "row list \<Rightarrow> string \<Rightarrow> bool" where
  "name_rejected table nm =
     (nm \<in> cert_name ` set table \<or> nm \<in> set reserved_keywords \<or> \<not> name_matches nm)"






subsection \<open>ACME issuance\<close>

text \<open>
  \<open>get_domain_names\<close>: the common name and the SAN entries of the record.  The common
  name can be NULL.
\<close>

definition get_domain_names :: "nat \<Rightarrow> crypto_lib \<Rightarrow> world \<Rightarrow> int
    \<Rightarrow> (error + string option list) option" where
  "get_domain_names n lib w i =
     (case get_instance n lib (certificates w) (authorities w) i of
        None \<Rightarrow> None
      | Some (Inl e) \<Rightarrow> Some (Inl e)
      | Some (Inr data) \<Rightarrow> Some (Inr (cert_common (v_row data) # map Some (v_san data))))"

text \<open>
  The first loop of \<open>acme_issue_certificate\<close>, over the domains of the CSR.  A dictionary
  such as \<open>dns_mapping\<close> is a list of key-value pairs with distinct keys, in insertion
  order.  A domain that is \<open>None\<close> has no \<open>endswith\<close>.
\<close>

definition domain_checks :: "(string \<times> int) list \<Rightarrow> int list \<Rightarrow> string \<Rightarrow> verrors \<Rightarrow> verrors" where
  "domain_checks dns_mapping dns_authenticator_ids domain verrors =
     (let v1 = (if domain \<notin> fst ` set dns_mapping
                then verrors @ [(''acme_create.dns_mapping'',
                       ''Please provide DNS authenticator id for '' @ domain)]
                else if the (map_of dns_mapping domain) \<notin> set dns_authenticator_ids
                then verrors @ [(''acme_create.dns_mapping'',
                       ''Provided DNS Authenticator id for '' @ domain @ '' does not exist'')]
                else verrors);
          v2 = (if domain \<noteq> [] \<and> last domain = CHR ''.''
                then v1 @ [(''acme_create.dns_mapping'',
                       ''Domain '' @ domain @ '' name cannot end with a period'')]
                else v1)
      in if CHR ''*'' \<in> set domain \<and> take 2 domain \<noteq> ''*.''
         then v2 @ [(''acme_create.dns_mapping'',
                ''Wildcards must be at the start of domain name followed by a period'')]
         else v2)"

fun domain_loop :: "(string \<times> int) list \<Rightarrow> int list \<Rightarrow> string option list \<Rightarrow> verrors
    \<Rightarrow> error + verrors" where
  "domain_loop dns_mapping ids [] verrors = Inr verrors"
| "domain_loop dns_mapping ids (None # domains) verrors = Inl AttributeError"
| "domain_loop dns_mapping ids (Some domain # domains) verrors =
     domain_loop dns_mapping ids domains (domain_checks dns_mapping ids domain verrors)"

text \<open>The second loop, over the keys of \<open>dns_mapping\<close>.\<close>

fun mapping_loop :: "string list \<Rightarrow> string option list \<Rightarrow> verrors \<Rightarrow> verrors" where
  "mapping_loop [] domains verrors = verrors"
| "mapping_loop (domain # keys) domains verrors =
     mapping_loop keys domains
       (if Some domain \<notin> set domains
        then verrors @ [(''acme_create.dns_mapping'', domain @ '' not specified in the CSR'')]
        else verrors)"

text \<open>\<open>d.replace('*.', '')\<close>\<close>

fun strip_wildcard :: "string \<Rightarrow> string" where
  "strip_wildcard (a # b # cs) =
     (if a = CHR ''*'' \<and> b = CHR ''.'' then strip_wildcard cs else a # strip_wildcard (b # cs))"
| "strip_wildcard cs = cs"

text \<open>
  \<open>handle_authorizations\<close>.  In the dictionary built from \<open>dns_mapping\<close> with the
  wildcard prefixes removed, a later entry replaces an earlier one with the same key.  The
  \<open>finally\<close> clause reports the progress of the domain before an error leaves the loop.
\<close>

fun handle_authorizations :: "acme_lib \<Rightarrow> world \<Rightarrow> authorization list \<Rightarrow> (string \<times> int) list
    \<Rightarrow> (error + unit) \<times> world" where
  "handle_authorizations acme w [] dns_mapping = (Inr (), w)"
| "handle_authorizations acme w (a # rest) dns_mapping =
     (let domain = auth_domain a;
          failed = SetProgress (''DNS challenge failed for '' @ domain)
      in if \<not> auth_dns01 a then
           (Inl (CallError (''DNS Challenge not found for domain '' @ domain)), log_event failed w)
         else
           (case map_of (rev (map (\<lambda>(d, v). (strip_wildcard d, v)) dns_mapping)) domain of
              None \<Rightarrow> (Inl (KeyError domain), log_event failed w)
            | Some authenticator \<Rightarrow>
               (let w1 = log_event (UpdateTxtRecord authenticator domain) w in
                case update_txt_record acme authenticator domain of
                  Some e \<Rightarrow> (Inl e, log_event failed w1)
                | None \<Rightarrow>
                   (let w2 = log_event (AnswerChallenge domain) w1 in
                    case answer_challenge acme domain of
                      Inl e \<Rightarrow>
                        (Inl (CallError (''Error answering challenge for '' @ domain @ '' : '' @ e)),
                         log_event failed w2)
                    | Inr status \<Rightarrow>
                        handle_authorizations acme
                          (log_event (SetProgress (''DNS challenge '' @
                             (if status then ''completed'' else ''failed'') @ '' for '' @ domain)) w2)
                          rest dns_mapping))))"

text \<open>The verrors \<open>acme_issue_certificate\<close> tests at \<open>if verrors: raise verrors\<close>.\<close>

definition issue_verrors :: "(string \<times> int) list \<Rightarrow> int list \<Rightarrow> string option list
    \<Rightarrow> error + verrors" where
  "issue_verrors dns_mapping ids domains =
     (case domain_loop dns_mapping ids domains [] of
        Inl e \<Rightarrow> Inl e
      | Inr v \<Rightarrow> Inr (mapping_loop (map fst dns_mapping) domains v))"

text \<open>What \<open>acme_issue_certificate\<close> does once the validation has passed.\<close>

definition place_order :: "acme_lib \<Rightarrow> world \<Rightarrow> (string \<times> int) list \<Rightarrow> string \<Rightarrow> bool
    \<Rightarrow> string option \<Rightarrow> (error + final_order) \<times> world" where
  "place_order acme w dns_mapping uri tos csr =
     (case get_acme_client_and_key acme w uri tos of
        (Inl e, w1) \<Rightarrow> (Inl e, w1)
      | (Inr client, w1) \<Rightarrow>
         (let w2 = log_event NewOrder w1 in
          case new_order acme csr of
            Inl e \<Rightarrow>
              (Inl (CallError (''Failed to issue a new order for Certificate : '' @ e)), w2)
          | Inr order \<Rightarrow>
             (let w3 = log_event (SetProgress ''New order for certificate issuance placed'') w2 in
              case handle_authorizations acme w3 order dns_mapping of
                (Inl e, w4) \<Rightarrow> (Inl e, w4)
              | (Inr u, w4) \<Rightarrow>
                 (let w5 = log_event PollAndFinalize w4 in
                  case poll_and_finalize acme order of
                    None \<Rightarrow>
                      (Inl (CallError ''Certificate request for final order timed out''), w5)
                  | Some final \<Rightarrow> (Inr final, w5)))))"

definition acme_issue_certificate :: "nat \<Rightarrow> crypto_lib \<Rightarrow> acme_lib \<Rightarrow> world
    \<Rightarrow> (string \<times> int) list \<Rightarrow> string \<Rightarrow> bool \<Rightarrow> int \<Rightarrow> string option
    \<Rightarrow> ((error + final_order) \<times> world) option" where
  "acme_issue_certificate n lib acme w dns_mapping uri tos csr_id csr =
     (case get_domain_names n lib w csr_id of
        None \<Rightarrow> None
      | Some (Inl e) \<Rightarrow> Some (Inl e, w)
      | Some (Inr domains) \<Rightarrow>
         (case issue_verrors dns_mapping (authenticators w) domains of
            Inl e \<Rightarrow> Some (Inl e, w)
          | Inr verrors \<Rightarrow>
             if verrors \<noteq> [] then Some (Inl (ValidationErrors verrors), w)
             else Some (place_order acme w dns_mapping uri tos csr)))"

subsection \<open>The renewal sweep\<close>


definition store_final_order :: "crypto_lib \<Rightarrow> final_order \<Rightarrow> row \<Rightarrow> row" where
  "store_final_order lib final r =
     r\<lparr>cert_certificate := Some (fullchain_pem final),
       cert_acme_uri := Some (order_uri final),
       cert_chain := (length (findall lib (fullchain_pem final)) > 1)\<rparr>"

text \<open>
  The body of the loop of \<open>renew_certs\<close>, for one certificate.  \<open>days_left\<close> is the
  number of days from now to the time in \<open>until\<close>.  The call of
  \<open>acme_issue_certificate\<close> is not inside any \<open>try\<close>.
\<close>

definition renew_one :: "nat \<Rightarrow> crypto_lib \<Rightarrow> acme_lib \<Rightarrow> (string \<Rightarrow> int) \<Rightarrow> world \<Rightarrow> view
    \<Rightarrow> ((error + unit) \<times> world) option" where
  "renew_one n lib acme days_left w cert =
     (case (v_until cert, cert_renew_days (v_row cert), cert_acme (v_row cert)) of
        (Some until, Some renew_days, Some reg) \<Rightarrow>
          if days_left until < renew_days then
            (let w1 = log_event (LogDebug (''Renewing certificate '' @ cert_name (v_row cert))) w in
             case acme_issue_certificate n lib acme w1
                    (cert_domains_authenticators (v_row cert)) (reg_directory reg) True
                    (cert_id (v_row cert)) (v_CSR cert) of
               None \<Rightarrow> None
             | Some (Inl e, w2) \<Rightarrow> Some (Inl e, w2)
             | Some (Inr final_order, w2) \<Rightarrow>
                 Some (Inr (),
                   log_event (SetProgress [])
                      (w2\<lparr>certificates :=
                            map (\<lambda>c. if cert_id c = cert_id (v_row cert)
                                      then store_final_order lib final_order c else c)
                                (certificates w2)\<rparr>)))
          else Some (Inr (), log_event (SetProgress []) w)
      | _ \<Rightarrow> Some (Inl TypeError, w))"



definition domain_violation :: "(string \<times> int) list \<Rightarrow> int list \<Rightarrow> string \<Rightarrow> bool" where
  "domain_violation dns_mapping ids d =
     (d \<notin> fst ` set dns_mapping \<or> the (map_of dns_mapping d) \<notin> set ids \<or>
      (d \<noteq> [] \<and> last d = CHR ''.'') \<or> (CHR ''*'' \<in> set d \<and> take 2 d \<noteq> ''*.''))"

definition dns_violation :: "(string \<times> int) list \<Rightarrow> int list \<Rightarrow> string list \<Rightarrow> bool" where
  "dns_violation dns_mapping ids ds =
     (list_ex (domain_violation dns_mapping ids) ds \<or>
      list_ex (\<lambda>k. k \<notin> set ds) (map fst dns_mapping))"

definition csr_row :: row where
  "csr_row =
     (row_of 1 CERT_TYPE_CSR ''request'' None None None False)
       \<lparr>cert_CSR := Some ''csr'', cert_common := Some ''a.example.com'',
        cert_san := Some ''*.b.example.com''\<rparr>"

definition csr_world :: world where
  "csr_world =
     \<lparr>certificates = [csr_row], authorities = [], registrations = [], authenticators = [7],
      ui_certificate = None, sentinels = [], events = []\<rparr>"

definition acme_row :: "int \<Rightarrow> string \<Rightarrow> string option \<Rightarrow> row" where
  "acme_row i nm csr =
     (row_of i CERT_TYPE_EXISTING nm (Some ''pem'') None None False)
       \<lparr>cert_CSR := csr, cert_common := Some ''a.example.com'',
        cert_acme := Some \<lparr>reg_id = 1, reg_directory = ''https://acme.example/directory''\<rparr>,
        cert_domains_authenticators := [(''a.example.com'', 7)],
        cert_renew_days := Some 10\<rparr>"

definition acme_world :: world where
  "acme_world =
     \<lparr>certificates = [acme_row 1 ''first'' None, acme_row 2 ''second'' (Some ''csr'')],
      authorities = [], registrations = [], authenticators = [7],
      ui_certificate = None, sentinels = [], events = []\<rparr>"


subsection \<open>The serial allocator\<close>
















section \<open>Properties\<close>

lemma load_certs_prefix:
  "fst (load_certs lib cs acc obj) = acc @ decoded_prefix lib cs"
  by (induction lib cs acc obj rule: load_certs.induct)
     (auto simp: decoded_prefix_def present_blobs_def decodes_def split: option.splits)

lemma load_certs_obj:
  "(snd (load_certs lib cs acc obj) \<noteq> None) = (obj \<noteq> None \<or> decoded_prefix lib cs \<noteq> [])"
  by (induction lib cs acc obj rule: load_certs.induct)
     (auto simp: decoded_prefix_def present_blobs_def decodes_def split: option.splits)

lemma mk_view_sel [simp]:
  "v_row (mk_view lib cert sb cl f u d) = cert"
  "v_signedby (mk_view lib cert sb cl f u d) = sb"
  "v_chain_list (mk_view lib cert sb cl f u d) = cl"
  by (simp_all add: mk_view_def)

lemma extend_dates_view:
  "extend_dates lib cert sb cl obj = Inr v \<Longrightarrow> v_row v = cert \<and> v_signedby v = sb \<and> v_chain_list v = cl"
  by (auto simp: extend_dates_def split: if_splits option.splits)

lemma extend_fields_view:
  assumes "extend_fields lib cert sb = Inr v"
  shows "v_row v = strip_acme cert \<and> v_signedby v = sb \<and>
         (\<exists>blobs. chain_blobs lib (strip_acme cert) sb = Inr blobs \<and>
            v_chain_list v = decoded_prefix lib blobs)"
proof (cases "chain_blobs lib (strip_acme cert) sb")
  case (Inl e)
  with assms show ?thesis by (simp add: extend_fields_def)
next
  case (Inr blobs)
  with assms have "extend_dates lib (strip_acme cert) sb (fst (load_certs lib blobs [] None))
      (snd (load_certs lib blobs [] None)) = Inr v"
    by (simp add: extend_fields_def)
  from extend_dates_view[OF this] Inr show ?thesis
    by (simp add: load_certs_prefix)
qed

lemmas type_defs =
  CA_TYPE_EXISTING_def CA_TYPE_INTERNAL_def CA_TYPE_INTERMEDIATE_def
  CERT_TYPE_EXISTING_def CERT_TYPE_INTERNAL_def CERT_TYPE_CSR_def

lemmas example_defs =
  example_lib_def row_of_def example_root_def example_inter_def corrupt_inter_def
  example_leaf_def imported_leaf_def example_bundle_def

lemmas extend_defs =
  extend_fields_def extend_dates_def chain_blobs_def strip_acme_def mk_view_def
  root_path_of_def privatekey_of_def csr_obj_of_def truthy_def is_ca_type_def path_join_def
  CERT_ROOT_PATH_def CERT_CA_ROOT_PATH_def is_whitespace_def

lemma strip_acme_keeps [simp]:
  "cert_type (strip_acme r) = cert_type r"
  "cert_certificate (strip_acme r) = cert_certificate r"
  "cert_chain (strip_acme r) = cert_chain r"
  "cert_signedby (strip_acme r) = cert_signedby r"
  "cert_CSR (strip_acme r) = cert_CSR r"
  "cert_id (strip_acme r) = cert_id r"
  "cert_name (strip_acme r) = cert_name r"
  "cert_serial (strip_acme r) = cert_serial r"
  by (simp_all add: strip_acme_def)

lemma view_ancestors_signedby:
  "view_ancestors v = (case v_signedby v of None \<Rightarrow> [] | Some p \<Rightarrow> p # view_ancestors p)"
  by (cases v) simp

lemma signing_chain_Some:
  "signing_chain ty (Some p) =
     (if ty = CERT_TYPE_INTERNAL \<or> ty = CA_TYPE_INTERMEDIATE
      then cert_certificate (v_row p) # signing_chain (cert_type (v_row p)) (v_signedby p)
      else [])"
  by (cases p) (auto simp: type_defs)

lemma decoded_prefix_all:
  "\<forall>r \<in> set rs. loadable lib r \<Longrightarrow>
   decoded_prefix lib (map cert_certificate rs) = map (pem_of lib) rs"
  by (induction rs)
     (auto simp: decoded_prefix_def present_blobs_def decodes_def loadable_def pem_of_def
           split: option.splits)

lemma extend_fields_loadable:
  assumes "cert_type cert \<noteq> CERT_TYPE_CSR" "loadable lib cert"
  shows "\<exists>v. extend_fields lib cert sb = Inr v"
proof -
  from assms(2) obtain c where c: "cert_certificate cert = Some c" "recode_certificate lib c \<noteq> None"
    by (auto simp: loadable_def split: option.splits)
  then obtain blobs where "chain_blobs lib (strip_acme cert) sb = Inr blobs"
    by (cases "cert_chain cert") (auto simp: chain_blobs_def)
  with c assms(1) show ?thesis
    by (auto simp: extend_fields_def extend_dates_def)
qed

lemma cert_extend_Suc_parent:
  assumes "signed_by cas c p" "cert_extend n lib cas p = Some (Inr pv)"
  shows "cert_extend (Suc n) lib cas c = Some (extend_fields lib c (Some pv))"
  using assms by (auto simp: signed_by_def split: option.splits)

lemma ca_path_views:
  assumes "ca_path cas c ps" "\<forall>r \<in> set ps. loadable lib r" "length ps \<le> n"
  shows "\<exists>p. cert_extend n lib cas (hd ps) = Some (Inr p) \<and>
             signing_chain CA_TYPE_INTERMEDIATE (Some p) = map cert_certificate ps \<and>
             map (\<lambda>u. cert_issuer u = Tag ''self-signed'') (p # view_ancestors p)
               = replicate (length ps - 1) False @ [True]"
  using assms
proof (induction cas c ps arbitrary: n rule: ca_path.induct)
  case (1 cas c)
  then show ?case by simp
next
  case (2 cas c p)
  then obtain m where n: "n = Suc m" by (cases n) auto
  from 2 have ty: "cert_type p \<noteq> CERT_TYPE_CSR" by (simp add: type_defs)
  from 2 have "loadable lib p" by simp
  from extend_fields_loadable[OF ty this] obtain v where v: "extend_fields lib p None = Inr v"
    by blast
  from extend_fields_view[OF v] 2 have vv: "v_row v = strip_acme p" "v_signedby v = None" by auto
  from 2 v n have "cert_extend n lib cas p = Some (Inr v)" by simp
  moreover from vv 2 have "signing_chain CA_TYPE_INTERMEDIATE (Some v) = [cert_certificate p]"
    by (simp add: signing_chain_Some type_defs)
  moreover from vv 2 have "cert_issuer v = Tag ''self-signed''"
    by (simp add: cert_issuer_def issuer_of_def type_defs)
  moreover from vv have "view_ancestors v = []"
    by (simp add: view_ancestors_signedby)
  ultimately show ?case by simp
next
  case (3 cas c p q ps)
  then obtain m where n: "n = Suc m" by (cases n) auto
  from 3 n have "\<exists>u. cert_extend m lib cas (hd (q # ps)) = Some (Inr u) \<and>
             signing_chain CA_TYPE_INTERMEDIATE (Some u) = map cert_certificate (q # ps) \<and>
             map (\<lambda>u. cert_issuer u = Tag ''self-signed'') (u # view_ancestors u)
               = replicate (length (q # ps) - 1) False @ [True]"
    by (intro "3.IH") auto
  then obtain u where u: "cert_extend m lib cas q = Some (Inr u)"
      "signing_chain CA_TYPE_INTERMEDIATE (Some u) = map cert_certificate (q # ps)"
      "map (\<lambda>u. cert_issuer u = Tag ''self-signed'') (u # view_ancestors u)
               = replicate (length ps) False @ [True]"
    by auto
  from 3 have sb: "signed_by cas p q" by (cases ps) auto
  from 3 have ty: "cert_type p \<noteq> CERT_TYPE_CSR" by (simp add: type_defs)
  from 3 have "loadable lib p" by simp
  from extend_fields_loadable[OF ty this] obtain v where v: "extend_fields lib p (Some u) = Inr v"
    by blast
  from extend_fields_view[OF v] have vv: "v_row v = strip_acme p" "v_signedby v = Some u" by auto
  from cert_extend_Suc_parent[OF sb u(1)] v n have "cert_extend n lib cas p = Some (Inr v)" by simp
  moreover from vv 3 u(2) have
    "signing_chain CA_TYPE_INTERMEDIATE (Some v) = map cert_certificate (p # q # ps)"
    by (simp add: signing_chain_Some)
  moreover from vv 3 have "cert_issuer v \<noteq> Tag ''self-signed''"
    by (simp add: cert_issuer_def issuer_of_def type_defs)
  moreover from vv have "view_ancestors v = u # view_ancestors u"
    by (simp add: view_ancestors_signedby)
  ultimately show ?case using u(3) by simp
qed

lemma ca_path_hd: "ca_path cas c ps \<Longrightarrow> ps \<noteq> [] \<and> signed_by cas c (hd ps)"
  by (induction cas c ps rule: ca_path.induct) auto

lemma cert_extend_fields:
  "cert_extend n lib cas cert = Some (Inr v) \<Longrightarrow> \<exists>sb. extend_fields lib cert sb = Inr v"
  by (cases n) (auto split: option.splits sum.splits)


subsection \<open>C2: a blob that fails to decode ends the chain list\<close>

text \<open>
  C2 as stated (every blob that parses still appears in \<open>chain_list\<close>, also those after
  a corrupt one) does not hold: the \<open>try\<close> encloses the whole loop.  With a leaf signed
  by an intermediate CA whose certificate is corrupt, itself signed by a root whose
  certificate parses, the blobs are leaf, intermediate, root; exactly one fails, and the
  chain list holds the leaf alone.
\<close>

theorem corrupt_middle_drops_root:
  "map_option (map_sum id v_chain_list)
      (cert_extend (Suc (Suc (Suc 0))) example_lib [example_root, corrupt_inter] example_leaf)
     = Some (Inr [''leafpem'']) \<and>
   map_option (map_sum id (chain_sources example_lib))
      (cert_extend (Suc (Suc (Suc 0))) example_lib [example_root, corrupt_inter] example_leaf)
     = Some (Inr (Inr [Some ''leafpem'', Some ''bad-inter'', Some ''rootpem''])) \<and>
   recode_certificate example_lib ''leafpem'' = Some ''leafpem'' \<and>
   recode_certificate example_lib ''bad-inter'' = None \<and>
   recode_certificate example_lib ''rootpem'' = Some ''rootpem''"
  by (simp add: example_defs extend_defs type_defs chain_sources_def)

text \<open>
  C2, amended.  A decode failure while \<open>chain_list\<close> is built is caught, and it ends the
  loop: in every view \<open>cert_extend\<close> returns, \<open>chain_list\<close> is the decoding of the
  blobs that come before the first one that fails to parse (empty blobs skipped), and
  holds nothing that comes after it.  For a record without the \<open>chain\<close> flag, not of
  type CSR, that has a certificate, the step after the signing CA is fetched returns a view
  whether or not the blobs decode.
\<close>

theorem chain_list_decoded_prefix:
  "(cert_extend n lib cas cert = Some (Inr v) \<longrightarrow>
      (\<exists>blobs. chain_sources lib v = Inr blobs \<and> v_chain_list v = decoded_prefix lib blobs)) \<and>
   (\<not> cert_chain cert \<and> cert_type cert \<noteq> CERT_TYPE_CSR \<and> truthy (cert_certificate cert) \<longrightarrow>
      (\<exists>u. extend_fields lib cert sb = Inr u \<and>
        v_chain_list u =
          decoded_prefix lib (cert_certificate cert # signing_chain (cert_type cert) sb)))"
proof (intro conjI impI)
  assume "cert_extend n lib cas cert = Some (Inr v)"
  then obtain sb' where "extend_fields lib cert sb' = Inr v"
    using cert_extend_fields by blast
  from extend_fields_view[OF this]
  show "\<exists>blobs. chain_sources lib v = Inr blobs \<and> v_chain_list v = decoded_prefix lib blobs"
    by (auto simp: chain_sources_def)
next
  assume a: "\<not> cert_chain cert \<and> cert_type cert \<noteq> CERT_TYPE_CSR \<and> truthy (cert_certificate cert)"
  then obtain c where c: "cert_certificate cert = Some c" "c \<noteq> []"
    by (auto simp: truthy_def split: option.splits)
  let ?blobs = "cert_certificate cert # signing_chain (cert_type cert) sb"
  from a have b: "chain_blobs lib (strip_acme cert) sb = Inr ?blobs"
    by (simp add: chain_blobs_def)
  have "\<exists>u. extend_fields lib cert sb = Inr u"
  proof (cases "recode_certificate lib c")
    case None
    with c have "load_certs lib ?blobs [] None = ([], None)" by simp
    with a b show ?thesis by (simp add: extend_fields_def extend_dates_def)
  next
    case (Some pem)
    with a b c show ?thesis by (simp add: extend_fields_def extend_dates_def)
  qed
  then obtain u where u: "extend_fields lib cert sb = Inr u" by blast
  from extend_fields_view[OF u] b have "v_chain_list u = decoded_prefix lib ?blobs" by simp
  with u show "\<exists>u. extend_fields lib cert sb = Inr u \<and> v_chain_list u = decoded_prefix lib ?blobs"
    by blast
qed

theorem chain_list_decoded_prefix_witness:
  "(\<exists>v blobs.
      cert_extend (Suc (Suc (Suc 0))) example_lib [example_root, corrupt_inter] example_leaf
        = Some (Inr v) \<and>
      chain_sources example_lib v = Inr blobs \<and>
      v_chain_list v = decoded_prefix example_lib blobs) \<and>
   (\<exists>u. extend_fields example_lib example_leaf None = Inr u \<and>
      v_chain_list u =
        decoded_prefix example_lib
          (cert_certificate example_leaf # signing_chain (cert_type example_leaf) None))"
proof -
  have "\<exists>v. cert_extend (Suc (Suc (Suc 0))) example_lib [example_root, corrupt_inter] example_leaf
          = Some (Inr v)"
    by (simp add: example_defs extend_defs type_defs)
  then obtain v where
    v: "cert_extend (Suc (Suc (Suc 0))) example_lib [example_root, corrupt_inter] example_leaf
          = Some (Inr v)"
    by blast
  have h: "\<not> cert_chain example_leaf \<and> cert_type example_leaf \<noteq> CERT_TYPE_CSR \<and>
           truthy (cert_certificate example_leaf)"
    by (simp add: example_defs truthy_def type_defs)
  from v h
    chain_list_decoded_prefix[of "Suc (Suc (Suc 0))" example_lib "[example_root, corrupt_inter]"
      example_leaf v None]
  show ?thesis by blast
qed

subsection \<open>C6: the chain list of a record signed by an internal CA\<close>

text \<open>
  C6 as stated covers every record without the \<open>chain\<close> flag whose \<open>signedby\<close> leads to
  a self-signed internal root.  The issuer is decided by the record's type first: a record
  of type \<open>CERT_TYPE_EXISTING\<close> has the issuer \<open>external\<close> whatever its \<open>signedby\<close>, so
  its chain list is the leaf alone, not leaf and root.
\<close>

theorem imported_leaf_chain_is_leaf_only:
  "ca_path [example_root] imported_leaf [example_root] \<and>
   \<not> cert_chain imported_leaf \<and>
   loadable example_lib imported_leaf \<and> loadable example_lib example_root \<and>
   map_option (map_sum id v_chain_list)
      (cert_extend (Suc (Suc 0)) example_lib [example_root] imported_leaf)
     = Some (Inr [''leafpem'']) \<and>
   map_option (map_sum id cert_issuer)
      (cert_extend (Suc (Suc 0)) example_lib [example_root] imported_leaf)
     = Some (Inr (Tag ''external''))"
  by (simp add: example_defs extend_defs type_defs signed_by_def loadable_def
        cert_issuer_def issuer_of_def)

text \<open>
  C6, amended.  For every record of type internal certificate or intermediate CA, without
  the \<open>chain\<close> flag, whose \<open>signedby\<close> leads through intermediate CAs to an internal CA
  that has no signing CA, and such that the certificate of the record and of every CA on
  the path is present and decodes: \<open>cert_extend\<close> returns (once the depth bound exceeds
  the length of the path) a view whose \<open>chain_list\<close> is the decoded leaf certificate
  followed by the decoded certificate of each CA on the path, the root last; and among the
  record and its nested signing CAs, the issuer is \<open>self-signed\<close> at the root and
  nowhere else.  With a path of length one the chain list is leaf, root.
\<close>

theorem signing_path_chain_list:
  assumes "ca_path cas cert ps"
    and "\<not> cert_chain cert"
    and "cert_type cert = CERT_TYPE_INTERNAL \<or> cert_type cert = CA_TYPE_INTERMEDIATE"
    and "\<forall>r \<in> set (cert # ps). loadable lib r"
    and "length ps < n"
  shows "\<exists>v. cert_extend n lib cas cert = Some (Inr v) \<and>
           v_chain_list v = map (pem_of lib) (cert # ps) \<and>
           map (\<lambda>u. cert_issuer u = Tag ''self-signed'') (v # view_ancestors v)
             = replicate (length ps) False @ [True]"
proof -
  from assms(5) obtain m where n: "n = Suc m" "length ps \<le> m" by (cases n) auto
  from ca_path_hd[OF assms(1)] have ne: "ps \<noteq> []" and sb: "signed_by cas cert (hd ps)" by auto
  from assms(4) have "\<forall>r \<in> set ps. loadable lib r" by simp
  from ca_path_views[OF assms(1) this n(2)] obtain p where
    p: "cert_extend m lib cas (hd ps) = Some (Inr p)"
       "signing_chain CA_TYPE_INTERMEDIATE (Some p) = map cert_certificate ps"
       "map (\<lambda>u. cert_issuer u = Tag ''self-signed'') (p # view_ancestors p)
          = replicate (length ps - 1) False @ [True]"
    by blast
  from assms(3) have ty: "cert_type cert \<noteq> CERT_TYPE_CSR" by (auto simp: type_defs)
  from assms(4) have "loadable lib cert" by simp
  from extend_fields_loadable[OF ty this] obtain v where
    v: "extend_fields lib cert (Some p) = Inr v" by blast
  from cert_extend_Suc_parent[OF sb p(1)] v n have r: "cert_extend n lib cas cert = Some (Inr v)"
    by simp
  from assms(3) p(2) have sc: "signing_chain (cert_type cert) (Some p) = map cert_certificate ps"
    by (auto simp: signing_chain_Some)
  from extend_fields_view[OF v] assms(2) sc have
    vv: "v_row v = strip_acme cert" "v_signedby v = Some p"
    and cl: "v_chain_list v = decoded_prefix lib (map cert_certificate (cert # ps))"
    by (auto simp: chain_blobs_def)
  from cl assms(4) have c1: "v_chain_list v = map (pem_of lib) (cert # ps)"
    using decoded_prefix_all[of "cert # ps" lib] by simp
  from vv assms(3) have "cert_issuer v \<noteq> Tag ''self-signed''"
    by (auto simp: cert_issuer_def issuer_of_def type_defs)
  moreover from vv have "view_ancestors v = p # view_ancestors p"
    by (simp add: view_ancestors_signedby)
  moreover from ne have "False # replicate (length ps - 1) False = replicate (length ps) False"
    by (cases ps) auto
  ultimately have "map (\<lambda>u. cert_issuer u = Tag ''self-signed'') (v # view_ancestors v)
             = replicate (length ps) False @ [True]"
    using p(3) by simp
  with r c1 show ?thesis by blast
qed

theorem signing_path_chain_list_witness:
  "\<exists>v. cert_extend (Suc (Suc (Suc 0))) example_lib [example_root, example_inter] example_leaf
          = Some (Inr v) \<and>
       v_chain_list v = [''leafpem'', ''interpem'', ''rootpem''] \<and>
       map (\<lambda>u. cert_issuer u = Tag ''self-signed'') (v # view_ancestors v)
         = [False, False, True]"
proof -
  have p: "ca_path [example_root, example_inter] example_leaf [example_inter, example_root]"
    by (simp add: example_defs signed_by_def type_defs)
  have c: "\<not> cert_chain example_leaf" by (simp add: example_defs)
  have t: "cert_type example_leaf = CERT_TYPE_INTERNAL \<or> cert_type example_leaf = CA_TYPE_INTERMEDIATE"
    by (simp add: example_defs)
  have l: "\<forall>r \<in> set (example_leaf # [example_inter, example_root]). loadable example_lib r"
    by (simp add: example_defs loadable_def)
  have n: "length [example_inter, example_root] < Suc (Suc (Suc 0))" by simp
  have m: "map (pem_of example_lib) (example_leaf # [example_inter, example_root])
             = [''leafpem'', ''interpem'', ''rootpem'']"
    by (simp add: example_defs pem_of_def)
  from signing_path_chain_list[OF p c t l n] m show ?thesis
    by (simp add: numeral_2_eq_2)
qed

subsection \<open>C7: a record with the chain flag and two PEM blocks\<close>




lemma log_event_tables [simp]:
  "certificates (log_event e w) = certificates w"
  "authorities (log_event e w) = authorities w"
  "registrations (log_event e w) = registrations w"
  "authenticators (log_event e w) = authenticators w"
  "ui_certificate (log_event e w) = ui_certificate w"
  "sentinels (log_event e w) = sentinels w"
  "events (log_event e w) = events w @ [e]"
  by (simp_all add: log_event_def)

lemma find_map_id:
  assumes "\<And>c. cert_id (f c) = cert_id c"
  shows "find (\<lambda>c. cert_id c = i) (map f cs) = map_option f (find (\<lambda>c. cert_id c = i) cs)"
  using assms by (induction cs) auto

lemma cert_extend_None_map:
  assumes "\<And>c. cert_id (f c) = cert_id c" "\<And>c. cert_signedby (f c) = cert_signedby c"
  shows "cert_signedby r' = cert_signedby r \<Longrightarrow>
         (cert_extend n lib (map f cas) r' = None) = (cert_extend n lib cas r = None)"
proof (induction n arbitrary: r r')
  case 0
  then show ?case by simp
next
  case (Suc n)
  show ?case
  proof (cases "cert_signedby r")
    case None
    with Suc.prems show ?thesis by simp
  next
    case (Some pid)
    show ?thesis
    proof (cases "find (\<lambda>c. cert_id c = pid) cas")
      case None
      with Some Suc.prems show ?thesis by (simp add: find_map_id[of f, OF assms(1)])
    next
      case (Some parent)
      have "(cert_extend n lib (map f cas) (f parent) = None) = (cert_extend n lib cas parent = None)"
        by (rule Suc.IH) (simp add: assms(2))
      with Some \<open>cert_signedby r = Some pid\<close> Suc.prems show ?thesis
        by (auto simp: find_map_id[of f, OF assms(1)] split: option.splits sum.splits)
    qed
  qed
qed

lemma updated_row_keeps [simp]:
  "cert_id (updated_row r old nm) = cert_id r"
  "cert_signedby (updated_row r old nm) = cert_signedby r"
  by (simp_all add: updated_row_def)

lemma get_instance_after_update:
  assumes "find (\<lambda>c. cert_id c = i) table = Some r"
    and "cert_extend n lib cas r = Some res"
  shows "get_instance n lib (datastore_update table i old nm) cas i \<noteq> None"
    and "get_instance n lib (datastore_update cas i old nm) (datastore_update cas i old nm) i \<noteq> None
          \<or> table \<noteq> cas"
proof -
  let ?f = "\<lambda>c. if cert_id c = i then updated_row c old nm else c"
  have fid: "\<And>c. cert_id (?f c) = cert_id c" and fsb: "\<And>c. cert_signedby (?f c) = cert_signedby c"
    by simp_all
  have i: "cert_id r = i" using assms(1) by (auto simp: find_Some_iff)
  have f1: "find (\<lambda>c. cert_id c = i) (map ?f tb) = map_option ?f (find (\<lambda>c. cert_id c = i) tb)" for tb
    by (rule find_map_id) simp
  have "(cert_extend n lib (map (\<lambda>c. c) cas) (?f r) = None) = (cert_extend n lib cas r = None)"
    by (rule cert_extend_None_map) simp_all
  with assms(2) have a: "cert_extend n lib cas (?f r) \<noteq> None" by simp
  show "get_instance n lib (datastore_update table i old nm) cas i \<noteq> None"
    using a assms(1) f1[of table] by (simp add: get_instance_def datastore_update_def)
  have "(cert_extend n lib (map ?f cas) (?f r) = None) = (cert_extend n lib cas r = None)"
    by (rule cert_extend_None_map) simp_all
  with assms(2) have b: "cert_extend n lib (map ?f cas) (?f r) \<noteq> None" by simp
  show "get_instance n lib (datastore_update cas i old nm) (datastore_update cas i old nm) i \<noteq> None
          \<or> table \<noteq> cas"
    using b assms(1) f1[of cas] by (auto simp: get_instance_def datastore_update_def)
qed

lemma do_update_same:
  assumes "find (\<lambda>c. cert_id c = i) (certificates w) = Some r"
    and "cert_extend n lib (authorities w) r = Some (Inr old)"
    and "data_name = None \<or> data_name = Some (cert_name r)"
  shows "do_update n lib w i data_name
           = Some (Inr old, log_event (SetProgress ''Finalizing changes'') w)"
proof -
  from assms(2) obtain sb where "extend_fields lib r sb = Inr old"
    using cert_extend_fields by blast
  from extend_fields_view[OF this] have nm: "cert_name (v_row old) = cert_name r" by simp
  from assms(1,2) have g: "get_instance n lib (certificates w) (authorities w) i = Some (Inr old)"
    by (simp add: get_instance_def)
  with nm assms(3) show ?thesis
    by (auto simp: do_update_def Let_def)
qed

lemma ca_do_update_same:
  assumes "find (\<lambda>c. cert_id c = i) (authorities w) = Some r"
    and "cert_extend n lib (authorities w) r = Some (Inr old)"
    and "data_name = None \<or> data_name = Some (cert_name r)"
    and "create_type \<noteq> Some ''CA_SIGN_CSR''"
  shows "ca_do_update n lib sign w i create_type data_name = Some (Inr old, w)"
proof -
  from assms(2) obtain sb where "extend_fields lib r sb = Inr old"
    using cert_extend_fields by blast
  from extend_fields_view[OF this] have nm: "cert_name (v_row old) = cert_name r" by simp
  from assms(1,2) have g: "get_instance n lib (authorities w) (authorities w) i = Some (Inr old)"
    by (simp add: get_instance_def)
  with nm assms(3,4) show ?thesis
    by (auto simp: ca_do_update_def Let_def)
qed

lemma do_update_changed:
  assumes "find (\<lambda>c. cert_id c = i) (certificates w) = Some r"
    and "cert_extend n lib (authorities w) r = Some (Inr old)"
    and "data_name = Some nm" and "nm \<noteq> cert_name r"
  shows "do_update n lib w i data_name =
          (if validate_cert_name (certificates w) nm [] ''certificate_update.name'' \<noteq> []
           then Some (Inl (ValidationErrors
                  (validate_cert_name (certificates w) nm [] ''certificate_update.name'')), w)
           else Some (the (get_instance n lib (datastore_update (certificates w) i old nm)
                             (authorities w) i),
                      log_event (SetProgress ''Finalizing changes'')
                        (log_event (ServiceStart ''ssl'')
                           (w\<lparr>certificates := datastore_update (certificates w) i old nm\<rparr>))))"
proof -
  from assms(2) obtain sb where "extend_fields lib r sb = Inr old"
    using cert_extend_fields by blast
  from extend_fields_view[OF this] have nm: "cert_name (v_row old) = cert_name r" by simp
  from assms(1,2) have g: "get_instance n lib (certificates w) (authorities w) i = Some (Inr old)"
    by (simp add: get_instance_def)
  from get_instance_after_update(1)[OF assms(1,2)]
  obtain res where "get_instance n lib (datastore_update (certificates w) i old nm) (authorities w) i = Some res"
    by blast
  with g nm assms(3,4) show ?thesis
    by (simp add: do_update_def Let_def)
qed

lemma ca_do_update_changed:
  assumes "find (\<lambda>c. cert_id c = i) (authorities w) = Some r"
    and "cert_extend n lib (authorities w) r = Some (Inr old)"
    and "data_name = Some nm" and "nm \<noteq> cert_name r"
    and "create_type \<noteq> Some ''CA_SIGN_CSR''"
  shows "ca_do_update n lib sign w i create_type data_name =
          (if validate_cert_name (authorities w) nm [] ''certificate_authority_update.name'' \<noteq> []
           then Some (Inl (ValidationErrors
                  (validate_cert_name (authorities w) nm [] ''certificate_authority_update.name'')), w)
           else Some (the (get_instance n lib (datastore_update (authorities w) i old nm)
                             (datastore_update (authorities w) i old nm) i),
                      log_event (ServiceStart ''ssl'')
                        (w\<lparr>authorities := datastore_update (authorities w) i old nm\<rparr>)))"
proof -
  from assms(2) obtain sb where "extend_fields lib r sb = Inr old"
    using cert_extend_fields by blast
  from extend_fields_view[OF this] have nm: "cert_name (v_row old) = cert_name r" by simp
  from assms(1,2) have g: "get_instance n lib (authorities w) (authorities w) i = Some (Inr old)"
    by (simp add: get_instance_def)
  from get_instance_after_update(2)[OF assms(1,2)]
  obtain res where "get_instance n lib (datastore_update (authorities w) i old nm)
      (datastore_update (authorities w) i old nm) i = Some res"
    by blast
  with g nm assms(3,4,5) show ?thesis
    by (simp add: ca_do_update_def Let_def)
qed

subsection \<open>C9: the certificate the system UI serves cannot be deleted\<close>

text \<open>
  C9.  \<open>do_delete\<close> called with the id of the certificate configured as the UI
  certificate raises a validation error on \<open>certificate_delete.id\<close> and leaves the state
  as it was: the row stays in the table, no revocation is requested (no registration is
  even looked up), and the ssl service is not started.  The depth bound plays no part: the
  check comes before the record is fetched.
\<close>

theorem delete_serving_certificate_rejected:
  assumes "ui_certificate w = Some i"
  shows "do_delete n lib acme w i force =
           Some (Inl (ValidationErrors [(''certificate_delete.id'',
             ''Selected certificate is being used by system HTTPS server, please select another one'')]), w)"
  using assms by (simp add: do_delete_def)

theorem delete_serving_certificate_rejected_witness:
  "do_delete 0 example_lib example_acme example_world 1 True =
     Some (Inl (ValidationErrors [(''certificate_delete.id'',
       ''Selected certificate is being used by system HTTPS server, please select another one'')]),
       example_world)"
proof -
  have "ui_certificate example_world = Some 1" by (simp add: example_world_def)
  from delete_serving_certificate_rejected[OF this] show ?thesis .
qed

subsection \<open>C10: an update writes only when the name changes\<close>

text \<open>
  C10.  Let the record with the given id exist and extend to the view \<open>old\<close>.  When the
  submitted data has no name, or the record's current name, \<open>do_update\<close> returns \<open>old\<close>,
  writes nothing to either table and does not start the ssl service (the certificate
  service reports progress, the CA service has no effect at all).  When the submitted name
  differs, it is validated: if it is not valid the call raises the validation errors and the
  state is unchanged; if it is valid, the row is written with the new name, the ssl service
  is started, and the call returns.  For the CA service this is on the path that does not
  dispatch \<open>CA_SIGN_CSR\<close>.
\<close>

theorem update_writes_only_on_name_change:
  assumes "find (\<lambda>c. cert_id c = i) (certificates w) = Some r"
    and "cert_extend n lib (authorities w) r = Some (Inr old)"
    and "find (\<lambda>c. cert_id c = j) (authorities w) = Some ca"
    and "cert_extend n lib (authorities w) ca = Some (Inr old_ca)"
    and "create_type \<noteq> Some ''CA_SIGN_CSR''"
  shows
   "(data_name = None \<or> data_name = Some (cert_name r) \<longrightarrow>
       do_update n lib w i data_name
         = Some (Inr old, log_event (SetProgress ''Finalizing changes'') w)) \<and>
    (ca_data_name = None \<or> ca_data_name = Some (cert_name ca) \<longrightarrow>
       ca_do_update n lib sign w j create_type ca_data_name = Some (Inr old_ca, w)) \<and>
    (data_name = Some nm \<and> nm \<noteq> cert_name r \<longrightarrow>
       (if validate_cert_name (certificates w) nm [] ''certificate_update.name'' \<noteq> []
        then do_update n lib w i data_name =
               Some (Inl (ValidationErrors
                 (validate_cert_name (certificates w) nm [] ''certificate_update.name'')), w)
        else \<exists>res. do_update n lib w i data_name =
               Some (res, log_event (SetProgress ''Finalizing changes'')
                            (log_event (ServiceStart ''ssl'')
                               (w\<lparr>certificates := datastore_update (certificates w) i old nm\<rparr>))))) \<and>
    (ca_data_name = Some ca_nm \<and> ca_nm \<noteq> cert_name ca \<longrightarrow>
       (if validate_cert_name (authorities w) ca_nm [] ''certificate_authority_update.name'' \<noteq> []
        then ca_do_update n lib sign w j create_type ca_data_name =
               Some (Inl (ValidationErrors
                 (validate_cert_name (authorities w) ca_nm [] ''certificate_authority_update.name'')), w)
        else \<exists>res. ca_do_update n lib sign w j create_type ca_data_name =
               Some (res, log_event (ServiceStart ''ssl'')
                            (w\<lparr>authorities := datastore_update (authorities w) j old_ca ca_nm\<rparr>))))"
proof (intro conjI impI)
  assume "data_name = None \<or> data_name = Some (cert_name r)"
  from do_update_same[OF assms(1,2) this]
  show "do_update n lib w i data_name
         = Some (Inr old, log_event (SetProgress ''Finalizing changes'') w)" .
next
  assume "ca_data_name = None \<or> ca_data_name = Some (cert_name ca)"
  from ca_do_update_same[OF assms(3,4) this assms(5)]
  show "ca_do_update n lib sign w j create_type ca_data_name = Some (Inr old_ca, w)" .
next
  assume a: "data_name = Some nm \<and> nm \<noteq> cert_name r"
  then have "data_name = Some nm" "nm \<noteq> cert_name r" by simp_all
  from do_update_changed[OF assms(1,2) this]
  show "if validate_cert_name (certificates w) nm [] ''certificate_update.name'' \<noteq> []
        then do_update n lib w i data_name =
               Some (Inl (ValidationErrors
                 (validate_cert_name (certificates w) nm [] ''certificate_update.name'')), w)
        else \<exists>res. do_update n lib w i data_name =
               Some (res, log_event (SetProgress ''Finalizing changes'')
                            (log_event (ServiceStart ''ssl'')
                               (w\<lparr>certificates := datastore_update (certificates w) i old nm\<rparr>)))"
    by (simp split: if_splits)
next
  assume a: "ca_data_name = Some ca_nm \<and> ca_nm \<noteq> cert_name ca"
  then have "ca_data_name = Some ca_nm" "ca_nm \<noteq> cert_name ca" by simp_all
  from ca_do_update_changed[OF assms(3,4) this assms(5), of sign]
  show "if validate_cert_name (authorities w) ca_nm [] ''certificate_authority_update.name'' \<noteq> []
        then ca_do_update n lib sign w j create_type ca_data_name =
               Some (Inl (ValidationErrors
                 (validate_cert_name (authorities w) ca_nm [] ''certificate_authority_update.name'')), w)
        else \<exists>res. ca_do_update n lib sign w j create_type ca_data_name =
               Some (res, log_event (ServiceStart ''ssl'')
                            (w\<lparr>authorities := datastore_update (authorities w) j old_ca ca_nm\<rparr>))"
    by (simp split: if_splits)
qed

lemmas name_defs =
  validate_cert_name_def name_matches_def name_char_def in_range_def reserved_keywords_def

lemma example_world_rows:
  "find (\<lambda>c. cert_id c = 1) (certificates example_world) = Some example_leaf"
  "find (\<lambda>c. cert_id c = 1) (authorities example_world) = Some example_root"
  "\<exists>old. cert_extend (Suc (Suc (Suc 0))) example_lib (authorities example_world) example_leaf
           = Some (Inr old)"
  "\<exists>old. cert_extend (Suc (Suc (Suc 0))) example_lib (authorities example_world) example_root
           = Some (Inr old)"
  by (simp_all add: example_world_def example_defs extend_defs type_defs)

theorem update_writes_only_on_name_change_witness:
  "(\<exists>old. do_update (Suc (Suc (Suc 0))) example_lib example_world 1 (Some ''leaf'')
      = Some (Inr old, log_event (SetProgress ''Finalizing changes'') example_world)) \<and>
   (\<exists>old. ca_do_update (Suc (Suc (Suc 0))) example_lib (\<lambda>w i. None) example_world 1 None None
      = Some (Inr old, example_world)) \<and>
   (\<exists>res old. do_update (Suc (Suc (Suc 0))) example_lib example_world 1 (Some ''renamed'')
      = Some (res, log_event (SetProgress ''Finalizing changes'')
                (log_event (ServiceStart ''ssl'')
                  (example_world\<lparr>certificates :=
                      datastore_update (certificates example_world) 1 old ''renamed''\<rparr>)))) \<and>
   do_update (Suc (Suc (Suc 0))) example_lib example_world 1 (Some ''external'')
      = Some (Inl (ValidationErrors [(''certificate_update.name'',
          ''external is a reserved internal keyword for Certificate Management'')]), example_world)"
proof -
  obtain old where old: "cert_extend (Suc (Suc (Suc 0))) example_lib (authorities example_world)
      example_leaf = Some (Inr old)"
    using example_world_rows(3) by blast
  obtain old_ca where old_ca: "cert_extend (Suc (Suc (Suc 0))) example_lib
      (authorities example_world) example_root = Some (Inr old_ca)"
    using example_world_rows(4) by blast
  have ct: "(None :: string option) \<noteq> Some ''CA_SIGN_CSR''" by simp
  have nm: "cert_name example_leaf = ''leaf''" by (simp add: example_defs)
  have v1: "validate_cert_name (certificates example_world) ''renamed'' []
              ''certificate_update.name'' = []"
    by (simp add: name_defs example_world_def example_defs)
  have v2: "validate_cert_name (certificates example_world) ''external'' []
              ''certificate_update.name'' = [(''certificate_update.name'',
          ''external is a reserved internal keyword for Certificate Management'')]"
    by (simp add: name_defs example_world_def example_defs)
  note t = update_writes_only_on_name_change[OF example_world_rows(1) old example_world_rows(2)
             old_ca ct]
  from t[of "Some ''leaf''" None _ "''x''" "''y''"] nm
  have a: "do_update (Suc (Suc (Suc 0))) example_lib example_world 1 (Some ''leaf'')
      = Some (Inr old, log_event (SetProgress ''Finalizing changes'') example_world)"
   and b: "ca_do_update (Suc (Suc (Suc 0))) example_lib (\<lambda>w i. None) example_world 1 None None
      = Some (Inr old_ca, example_world)"
    by simp_all
  from t[of "Some ''renamed''" None _ "''renamed''" "''y''"] nm v1
  have c: "\<exists>res. do_update (Suc (Suc (Suc 0))) example_lib example_world 1 (Some ''renamed'')
      = Some (res, log_event (SetProgress ''Finalizing changes'')
                (log_event (ServiceStart ''ssl'')
                  (example_world\<lparr>certificates :=
                      datastore_update (certificates example_world) 1 old ''renamed''\<rparr>)))"
    by simp
  from t[of "Some ''external''" None _ "''external''" "''y''"] nm v2
  have d: "do_update (Suc (Suc (Suc 0))) example_lib example_world 1 (Some ''external'')
      = Some (Inl (ValidationErrors [(''certificate_update.name'',
          ''external is a reserved internal keyword for Certificate Management'')]), example_world)"
    by simp
  from a b c d show ?thesis by blast
qed



lemma validate_cert_name_accepts:
  "\<not> name_rejected table nm \<Longrightarrow> validate_cert_name table nm v f = v"
  by (auto simp: validate_cert_name_def Let_def name_rejected_def filter_empty_conv image_iff)

lemma validate_cert_name_exists:
  "nm \<in> cert_name ` set table \<Longrightarrow>
   (f, ''A certificate with this name already exists'') \<in> set (validate_cert_name table nm v f)"
  by (auto simp: validate_cert_name_def Let_def filter_empty_conv image_iff)

lemma validate_cert_name_reserved:
  "nm \<in> set reserved_keywords \<Longrightarrow>
   (f, nm @ '' is a reserved internal keyword for Certificate Management'')
     \<in> set (validate_cert_name table nm v f)"
  by (auto simp: validate_cert_name_def Let_def)

lemma validate_cert_name_format:
  \<open>\<not> name_matches nm \<Longrightarrow>
   (f, ''Use alphanumeric characters, "_" and "-".'') \<in> set (validate_cert_name table nm v f)\<close>
  by (auto simp: validate_cert_name_def Let_def)

lemma name_matches_iff:
  "name_matches s =
     (\<exists>body. body \<noteq> [] \<and> (\<forall>c \<in> set body. name_char c) \<and> (s = body \<or> s = body @ [CHR 0x0A]))"
proof
  assume a: "name_matches s"
  let ?b = "takeWhile name_char s"
  let ?d = "dropWhile name_char s"
  have e: "?b @ ?d = s" by (rule takeWhile_dropWhile_id)
  from a have b: "?b \<noteq> []" and d: "?d = [] \<or> ?d = [CHR 0x0A]"
    unfolding name_matches_def by blast+
  have c: "\<forall>c \<in> set ?b. name_char c" by (blast dest: set_takeWhileD)
  from d have "s = ?b \<or> s = ?b @ [CHR 0x0A]"
  proof
    assume "?d = []"
    then have "?b @ [] = s" using e by (simp only:)
    then show ?thesis by (simp only: append_Nil2) metis
  next
    assume "?d = [CHR 0x0A]"
    then have "?b @ [CHR 0x0A] = s" using e by (simp only:)
    then show ?thesis by metis
  qed
  with b c show "\<exists>body. body \<noteq> [] \<and> (\<forall>c \<in> set body. name_char c) \<and> (s = body \<or> s = body @ [CHR 0x0A])"
    by blast
next
  assume "\<exists>body. body \<noteq> [] \<and> (\<forall>c \<in> set body. name_char c) \<and> (s = body \<or> s = body @ [CHR 0x0A])"
  then obtain body where b: "body \<noteq> []" "\<forall>c \<in> set body. name_char c"
      "s = body \<or> s = body @ [CHR 0x0A]" by blast
  have nl: "\<not> name_char (CHR 0x0A)" by (simp add: name_char_def in_range_def)
  from b(2) have tw: "takeWhile name_char body = body" and dw: "dropWhile name_char body = []"
    by simp_all
  from b(3) show "name_matches s"
  proof
    assume "s = body"
    with b(1) tw dw show ?thesis unfolding name_matches_def by metis
  next
    assume "s = body @ [CHR 0x0A]"
    with b nl show ?thesis
      by (simp add: name_matches_def takeWhile_append2 dropWhile_append2)
  qed
qed














subsection \<open>C3: names are checked against the service's own table\<close>




subsection \<open>C8: validation failures are raised as one batch before the variant runs\<close>












subsection \<open>C5: the dns_mapping violations are raised together, before any ACME request\<close>


lemmas acme_defs =
  acme_issue_certificate_def get_domain_names_def get_instance_def issue_verrors_def
  renew_one_def Let_def
  domain_checks_def place_order_def get_acme_client_and_key_def log_event_def
  example_acme_def csr_row_def csr_world_def acme_row_def acme_world_def

lemma example_domain_names: "get_domain_names (Suc 0) example_lib csr_world 1
             = Some (Inr (map Some [''a.example.com'', ''*.b.example.com'']))"
    by (simp add: acme_defs example_defs extend_defs type_defs)

lemma example_dns_violation: "dns_violation [(''a.example.com'', 7)] (authenticators csr_world)
             [''a.example.com'', ''*.b.example.com'']"
    by (simp add: dns_violation_def domain_violation_def)


subsection \<open>C4: a failed renewal ends the sweep\<close>





































subsection \<open>C1: the serial allocator\<close>




end
